theory Spec2Isabelle
  imports Main "HOL-Library.AList"
begin

section \<open>Python values, exceptions and dictionaries\<close>

text \<open>
  The module \<^verbatim>\<open>databricks_utils.py\<close> is embedded function by function. Strings are
  lists of characters and are read as ASCII text. A raised exception is the left
  summand of a result; \<^verbatim>\<open>str(e)\<close> is the message the exception carries. Errors of
  the Spark backend carry whatever message the backend supplies.
\<close>

datatype py_exc =
    ValueError string
  | TypeError string
  | IndexError string
  | BackendError string
  | Exception string

fun str_exc :: "py_exc \<Rightarrow> string" where
  "str_exc (ValueError m) = m"
| "str_exc (TypeError m) = m"
| "str_exc (IndexError m) = m"
| "str_exc (BackendError m) = m"
| "str_exc (Exception m) = m"

text \<open>
  The values a grid cell or a JSON field holds: \<^verbatim>\<open>None\<close>, booleans, integers,
  strings, and \<^verbatim>\<open>datetime.date\<close> objects (year, month, day). Floating-point cells
  are outside the model.
\<close>

datatype pyval =
    PyNone
  | PyBool bool
  | PyInt int
  | PyStr string
  | PyDate nat nat nat

text \<open>
  A row is a Python \<^verbatim>\<open>dict\<close> from column names to values: an association list
  with distinct keys in insertion order. \<^const>\<open>map_of\<close> is the lookup and
  \<^const>\<open>AList.update\<close> the assignment \<^verbatim>\<open>row[k] = v\<close>, which keeps the position of
  an existing key and appends a new one.
\<close>

type_synonym row = "(string \<times> pyval) list"

definition dict_contains :: "string \<Rightarrow> (string \<times> 'v) list \<Rightarrow> bool" where
  "dict_contains k d = (map_of d k \<noteq> None)"

section \<open>The Spark session\<close>

text \<open>
  One row of the metadata table
  \<^verbatim>\<open>advancinglake.default.databricks_plan_config_table\<close>.
\<close>

record meta_row =
  table_catalog :: string
  table_schema :: string
  table_name :: string
  column_name :: string

text \<open>
  A field of a \<^verbatim>\<open>StructType\<close>: its name and the class name of its data type
  (\<^verbatim>\<open>type(field.dataType).__name__\<close>).
\<close>

record struct_field =
  field_name :: string
  dataType :: string

text \<open>
  What the builder chain of \<^verbatim>\<open>save_to_databricks\<close> hands to \<^verbatim>\<open>execute()\<close>:
  the target table, the source data frame (rows and columns), the merge condition, the
  dictionary of \<^verbatim>\<open>whenMatchedUpdate\<close> and whether \<^verbatim>\<open>whenNotMatchedInsertAll\<close>
  was requested.
\<close>

record merge_request =
  target :: string
  source_rows :: "row list"
  source_columns :: "string list"
  condition :: string
  matched_update_set :: "(string \<times> string) list"
  not_matched_insert_all :: bool

text \<open>
  The session \<^verbatim>\<open>spark\<close> of \<^verbatim>\<open>config.py\<close> and the Delta library are external.
  Each call the module makes on them is a field: the collected rows of the metadata
  table, the schema of a named table, whether \<^verbatim>\<open>createDataFrame\<close>,
  \<^verbatim>\<open>DeltaTable.forName\<close> and \<^verbatim>\<open>execute\<close> raise, and the list of merges whose
  \<^verbatim>\<open>execute\<close> has been invoked so far.
\<close>

record spark_session =
  key_table :: "py_exc + meta_row list"
  schema_of :: "string \<Rightarrow> py_exc + struct_field list"
  createDataFrame_raises :: "row list \<Rightarrow> struct_field list \<Rightarrow> py_exc option"
  forName_raises :: "string \<Rightarrow> py_exc option"
  execute_raises :: "merge_request \<Rightarrow> py_exc option"
  merge_calls :: "merge_request list"

section \<open>Key resolution: \<^verbatim>\<open>get_primary_keys\<close>\<close>

text \<open>\<^verbatim>\<open>s.split(c)\<close> for a one-character separator; \<^verbatim>\<open>"".split(".")\<close> is \<^verbatim>\<open>[""]\<close>.\<close>

fun py_split :: "char \<Rightarrow> string \<Rightarrow> string list" where
  "py_split c [] = [[]]"
| "py_split c (x # xs) =
     (if x = c then [] # py_split c xs
      else (x # hd (py_split c xs)) # tl (py_split c xs))"

text \<open>
  The message of the \<^verbatim>\<open>ValueError\<close> that unpacking \<open>n\<close> values into three
  targets raises (\<open>n\<close> is never 0 here, since a split has at least one part).
\<close>

definition unpack3_message :: "nat \<Rightarrow> string" where
  "unpack3_message n =
     (if n < 3 then ''not enough values to unpack (expected 3, got ''
                    @ (if n = 1 then ''1'' else ''2'') @ '')''
      else ''too many values to unpack (expected 3)'')"

definition get_primary_keys :: "spark_session \<Rightarrow> string \<Rightarrow> py_exc + string list" where
  "get_primary_keys spark tname =
     (let parts = py_split (CHR ''.'') tname in
      if length parts \<noteq> 3 then Inl (ValueError (unpack3_message (length parts)))
      else
        let catalog = parts ! 0; schema = parts ! 1; table = parts ! 2 in
        case key_table spark of
          Inl e \<Rightarrow> Inl e
        | Inr meta \<Rightarrow>
            Inr (map column_name
                  (filter (\<lambda>r. table_name r = table)
                    (filter (\<lambda>r. table_schema r = schema)
                      (filter (\<lambda>r. table_catalog r = catalog) meta)))))"

section \<open>Conversions of the Python library\<close>

definition is_digit :: "char \<Rightarrow> bool" where
  "is_digit c = (c \<in> set ''0123456789'')"

definition digit_value :: "char \<Rightarrow> nat" where
  "digit_value c = of_char c - 48"

definition nat_of_digits :: "string \<Rightarrow> nat" where
  "nat_of_digits ds = foldl (\<lambda>a c. 10 * a + digit_value c) 0 ds"

fun str_nat :: "nat \<Rightarrow> string" where
  "str_nat n =
     (if n < 10 then [char_of (48 + n)]
      else str_nat (n div 10) @ [char_of (48 + n mod 10)])"

text \<open>
  \<^verbatim>\<open>repr(s)\<close> of a string: double quotes when the string holds a single quote and
  no double quote, single quotes otherwise; the backslash, the chosen quote and the
  control characters are escaped.
\<close>

definition hex_digit :: "nat \<Rightarrow> char" where
  "hex_digit n = ''0123456789abcdef'' ! n"

definition py_repr_char :: "char \<Rightarrow> char \<Rightarrow> string" where
  "py_repr_char q c =
     (if c = q \<or> c = CHR 0x5C then [CHR 0x5C, c]
      else if c = CHR 0x09 then [CHR 0x5C, CHR ''t'']
      else if c = CHR 0x0A then [CHR 0x5C, CHR ''n'']
      else if c = CHR 0x0D then [CHR 0x5C, CHR ''r'']
      else if (of_char c :: nat) < 32 \<or> c = CHR 0x7F
        then [CHR 0x5C, CHR ''x'', hex_digit (of_char c div 16), hex_digit (of_char c mod 16)]
      else [c])"

definition py_repr :: "string \<Rightarrow> string" where
  "py_repr s =
     (let q = (if CHR 0x27 \<in> set s \<and> CHR 0x22 \<notin> set s then CHR 0x22 else CHR 0x27)
      in q # concat (map (py_repr_char q) s) @ [q])"

text \<open>
  \<^verbatim>\<open>int(v)\<close>. For a string: surrounding whitespace is dropped, one sign is allowed,
  then decimal digits with single underscores between them; more than 4300 digits
  exceed the default conversion limit. A boolean converts to 0 or 1; \<^verbatim>\<open>None\<close> and
  dates raise \<^verbatim>\<open>TypeError\<close>.
\<close>

definition py_isspace :: "char \<Rightarrow> bool" where
  "py_isspace c =
     (c \<in> set [CHR 0x09, CHR 0x0A, CHR 0x0B, CHR 0x0C, CHR 0x0D,
                CHR 0x1C, CHR 0x1D, CHR 0x1E, CHR 0x1F, CHR 0x20])"

definition py_strip :: "string \<Rightarrow> string" where
  "py_strip s = rev (dropWhile py_isspace (rev (dropWhile py_isspace s)))"

fun int_literal_ok :: "string \<Rightarrow> bool" where
  "int_literal_ok [] = False"
| "int_literal_ok [c] = is_digit c"
| "int_literal_ok (c # d # r) =
     (is_digit c \<and> (if d = CHR ''_'' then int_literal_ok r else int_literal_ok (d # r)))"

definition int_of_str :: "string \<Rightarrow> py_exc + int" where
  "int_of_str s =
     (let t = py_strip s;
          neg = (t \<noteq> [] \<and> hd t = CHR ''-'');
          body = (if t \<noteq> [] \<and> (hd t = CHR ''-'' \<or> hd t = CHR ''+'') then tl t else t);
          ds = filter is_digit body
      in if \<not> int_literal_ok body
           then Inl (ValueError (''invalid literal for int() with base 10: '' @ py_repr s))
         else if length ds > 4300
           then Inl (ValueError (''Exceeds the limit (4300 digits) for integer string conversion: value has ''
                  @ str_nat (length ds) @ '' digits; use sys.set_int_max_str_digits() to increase the limit''))
         else Inr (if neg then - int (nat_of_digits ds) else int (nat_of_digits ds)))"

definition int_type_error :: "string \<Rightarrow> py_exc" where
  "int_type_error ty =
     TypeError (''int() argument must be a string, a bytes-like object or a real number, not ''
                @ [CHR 0x27] @ ty @ [CHR 0x27])"

fun py_int :: "pyval \<Rightarrow> py_exc + int" where
  "py_int (PyInt i) = Inr i"
| "py_int (PyBool b) = Inr (if b then 1 else 0)"
| "py_int (PyStr s) = int_of_str s"
| "py_int PyNone = Inl (int_type_error ''NoneType'')"
| "py_int (PyDate y m d) = Inl (int_type_error ''datetime.date'')"

text \<open>A list comprehension over a body that may raise stops at the first exception.\<close>

fun map_exc :: "('a \<Rightarrow> py_exc + 'b) \<Rightarrow> 'a list \<Rightarrow> py_exc + 'b list" where
  "map_exc f [] = Inr []"
| "map_exc f (x # xs) =
     (case f x of
        Inl e \<Rightarrow> Inl e
      | Inr y \<Rightarrow> (case map_exc f xs of Inl e \<Rightarrow> Inl e | Inr ys \<Rightarrow> Inr (y # ys)))"

text \<open>\<^verbatim>\<open>xs[i]\<close>: a negative index counts from the end; out of range raises.\<close>

definition py_index :: "'a list \<Rightarrow> int \<Rightarrow> py_exc + 'a" where
  "py_index xs i =
     (let n = int (length xs); j = (if i < 0 then i + n else i)
      in if 0 \<le> j \<and> j < n then Inr (xs ! nat j)
         else Inl (IndexError ''list index out of range''))"

text \<open>\<^verbatim>\<open>sep.join(xs)\<close>.\<close>

fun str_join :: "string \<Rightarrow> string list \<Rightarrow> string" where
  "str_join sep [] = []"
| "str_join sep [x] = x"
| "str_join sep (x # y # ys) = x @ sep @ str_join sep (y # ys)"

text \<open>Equality \<^verbatim>\<open>==\<close> and membership \<^verbatim>\<open>in\<close>; a boolean equals the integer 0 or 1.\<close>

fun py_eq :: "pyval \<Rightarrow> pyval \<Rightarrow> bool" where
  "py_eq (PyBool a) (PyInt i) = ((if a then 1 else 0) = i)"
| "py_eq (PyInt i) (PyBool a) = (i = (if a then 1 else 0))"
| "py_eq v w = (v = w)"

definition py_in :: "pyval \<Rightarrow> pyval list \<Rightarrow> bool" where
  "py_in v xs = list_ex (py_eq v) xs"

section \<open>Parsing a date: \<^verbatim>\<open>datetime.strptime(s, "%Y-%m-%d").date()\<close>\<close>

text \<open>
  The format compiles to the regular expression
  \<^verbatim>\<open>(?P<Y>\d\d\d\d)-(?P<m>1[0-2]|0[1-9]|[1-9])-(?P<d>3[0-1]|[1-2]\d|0[1-9]|[1-9]| [1-9])\<close>,
  matched at the start of the string; alternatives are tried in the order written.
\<close>

definition is_digit19 :: "char \<Rightarrow> bool" where
  "is_digit19 c = (c \<in> set ''123456789'')"

definition match_Y :: "string \<Rightarrow> (string \<times> string) option" where
  "match_Y s =
     (if 4 \<le> length s \<and> list_all is_digit (take 4 s) then Some (take 4 s, drop 4 s)
      else None)"

text \<open>Every alternative of the month group that matches a prefix, in order.\<close>

definition match_m_alternatives :: "string \<Rightarrow> (string \<times> string) list" where
  "match_m_alternatives s =
     (case s of
        [] \<Rightarrow> []
      | a # r \<Rightarrow>
          (case r of
             [] \<Rightarrow> []
           | b # r' \<Rightarrow>
               (if a = CHR ''1'' \<and> b \<in> set ''012'' then [([a, b], r')] else [])
               @ (if a = CHR ''0'' \<and> is_digit19 b then [([a, b], r')] else []))
          @ (if is_digit19 a then [([a], r)] else []))"

text \<open>The first alternative of the day group that matches a prefix.\<close>

definition match_d :: "string \<Rightarrow> (string \<times> string) option" where
  "match_d s =
     (case s of
        [] \<Rightarrow> None
      | [a] \<Rightarrow> if is_digit19 a then Some ([a], []) else None
      | a # b # r \<Rightarrow>
          if a = CHR ''3'' \<and> b \<in> set ''01'' then Some ([a, b], r)
          else if a \<in> set ''12'' \<and> is_digit b then Some ([a, b], r)
          else if a = CHR ''0'' \<and> is_digit19 b then Some ([a, b], r)
          else if is_digit19 a then Some ([a], b # r)
          else if a = CHR '' '' \<and> is_digit19 b then Some ([a, b], r)
          else None)"

fun first_some :: "('a \<Rightarrow> 'b option) \<Rightarrow> 'a list \<Rightarrow> 'b option" where
  "first_some f [] = None"
| "first_some f (x # xs) = (case f x of Some y \<Rightarrow> Some y | None \<Rightarrow> first_some f xs)"

definition match_after_m :: "string \<Rightarrow> string \<times> string \<Rightarrow> (string \<times> string \<times> string \<times> string) option" where
  "match_after_m Y mr =
     (case snd mr of
        [] \<Rightarrow> None
      | c # r \<Rightarrow>
          if c \<noteq> CHR ''-'' then None
          else (case match_d r of
                  None \<Rightarrow> None
                | Some (D, rest) \<Rightarrow> Some (Y, fst mr, D, rest)))"

text \<open>The groups of the match and the unmatched remainder of the string.\<close>

definition match_format :: "string \<Rightarrow> (string \<times> string \<times> string \<times> string) option" where
  "match_format s =
     (case match_Y s of
        None \<Rightarrow> None
      | Some (Y, r1) \<Rightarrow>
          (case r1 of
             [] \<Rightarrow> None
           | c # r2 \<Rightarrow>
               if c \<noteq> CHR ''-'' then None
               else first_some (match_after_m Y) (match_m_alternatives r2)))"

definition is_leap :: "nat \<Rightarrow> bool" where
  "is_leap y = (y mod 4 = 0 \<and> (y mod 100 \<noteq> 0 \<or> y mod 400 = 0))"

definition days_in_month :: "nat \<Rightarrow> nat \<Rightarrow> nat" where
  "days_in_month y m =
     (if m = 2 then (if is_leap y then 29 else 28)
      else if m \<in> {4, 6, 9, 11} then 30 else 31)"

fun strptime_type_name :: "pyval \<Rightarrow> string" where
  "strptime_type_name PyNone = ''None''"
| "strptime_type_name (PyBool b) = ''bool''"
| "strptime_type_name (PyInt i) = ''int''"
| "strptime_type_name (PyStr s) = ''str''"
| "strptime_type_name (PyDate y m d) = ''datetime.date''"

definition strptime_str :: "string \<Rightarrow> py_exc + pyval" where
  "strptime_str s =
     (case match_format s of
        None \<Rightarrow>
          Inl (ValueError (''time data '' @ py_repr s @ '' does not match format ''
                            @ py_repr ''%Y-%m-%d''))
      | Some (Y, M, D, rest) \<Rightarrow>
          if rest \<noteq> [] then Inl (ValueError (''unconverted data remains: '' @ rest))
          else
            let year = nat_of_digits Y;
                month = nat_of_digits M;
                day = nat_of_digits (dropWhile py_isspace D)
            in if year = 0 then Inl (ValueError ''year 0 is out of range'')
               else if days_in_month year month < day
                 then Inl (ValueError ''day is out of range for month'')
               else Inr (PyDate year month day))"

definition strptime_date :: "pyval \<Rightarrow> py_exc + pyval" where
  "strptime_date v =
     (case v of
        PyStr s \<Rightarrow> strptime_str s
      | _ \<Rightarrow> Inl (TypeError (''strptime() argument 1 must be str, not ''
                              @ strptime_type_name v)))"

section \<open>Change tracking: \<^verbatim>\<open>track_changes\<close>\<close>

text \<open>
  \<^verbatim>\<open>changed_cells\<close> is the list of entries of one \<^verbatim>\<open>cellValueChanged\<close> event (or
  \<^verbatim>\<open>None\<close>), each a dictionary; \<^verbatim>\<open>changed_rows_id\<close> is the content of the store
  (a list, or \<^verbatim>\<open>None\<close>). An empty list and \<^verbatim>\<open>None\<close> are both falsy.
\<close>

definition dict_get :: "(string \<times> pyval) list \<Rightarrow> string \<Rightarrow> pyval" where
  "dict_get d k = (case map_of d k of None \<Rightarrow> PyNone | Some v \<Rightarrow> v)"

definition track_changes :: "row list option \<Rightarrow> int list option \<Rightarrow> py_exc + int list" where
  "track_changes changed_cells changed_rows_id =
     (let ids = (case changed_rows_id of None \<Rightarrow> [] | Some xs \<Rightarrow> xs) in
      case changed_cells of
        None \<Rightarrow> Inr ids
      | Some cells \<Rightarrow>
          if cells = [] then Inr ids
          else (case map_exc (\<lambda>entry. py_int (dict_get entry ''rowId'')) cells of
                  Inl e \<Rightarrow> Inl e
                | Inr new \<Rightarrow> Inr (ids @ new)))"

section \<open>Saving: \<^verbatim>\<open>save_to_databricks\<close> and \<^verbatim>\<open>save_data\<close>\<close>

text \<open>
  The message of the \<^verbatim>\<open>ValueError\<close> raised when no key column is found; its
  characters outside ASCII (the cross mark and the umlauts) are written as their UTF-8
  bytes.
\<close>

definition no_primary_key_message :: "string \<Rightarrow> string" where
  "no_primary_key_message tname =
     [CHR 0xE2, CHR 0x9D, CHR 0x8C] @ '' Keine Prim'' @ [CHR 0xC3, CHR 0xA4] @ ''rschl''
     @ [CHR 0xC3, CHR 0xBC] @ ''ssel gefunden f'' @ [CHR 0xC3, CHR 0xBC] @ ''r '' @ tname @ ''.''"

definition merge_condition_of :: "string list \<Rightarrow> string" where
  "merge_condition_of unique_keys =
     str_join '' AND '' (map (\<lambda>key. ''target.'' @ key @ '' = source.'' @ key) unique_keys)"

definition columns_to_update_of :: "string list \<Rightarrow> string list \<Rightarrow> string list" where
  "columns_to_update_of columns unique_keys = filter (\<lambda>c. c \<notin> set unique_keys) columns"

text \<open>The dictionary comprehension \<^verbatim>\<open>{col: f"source.{col}" for col in columns_to_update}\<close>.\<close>

definition update_set_of :: "string list \<Rightarrow> (string \<times> string) list" where
  "update_set_of columns_to_update =
     foldl (\<lambda>d c. AList.update c (''source.'' @ c) d) [] columns_to_update"

text \<open>
  The builder chain \<^verbatim>\<open>alias, merge, whenMatchedUpdate, whenNotMatchedInsertAll,
  execute\<close> hands the merge to the backend: the call is recorded, and the backend accepts
  it or raises.
\<close>

definition execute_merge :: "spark_session \<Rightarrow> merge_request \<Rightarrow> (py_exc + unit) \<times> spark_session" where
  "execute_merge spark req =
     ((case execute_raises spark req of Some e \<Rightarrow> Inl e | None \<Rightarrow> Inr ()),
      spark\<lparr>merge_calls := merge_calls spark @ [req]\<rparr>)"

text \<open>The body of the \<^verbatim>\<open>try\<close> block of \<^verbatim>\<open>save_to_databricks\<close>.\<close>

definition save_try :: "int list \<Rightarrow> string \<Rightarrow> row list \<Rightarrow> spark_session \<Rightarrow> (py_exc + unit) \<times> spark_session" where
  "save_try changed_rows_id tname row_data spark =
     (case get_primary_keys spark tname of
        Inl e \<Rightarrow> (Inl e, spark)
      | Inr unique_keys \<Rightarrow>
          if unique_keys = [] then (Inl (ValueError (no_primary_key_message tname)), spark)
          else
            (case map_exc (py_index row_data) changed_rows_id of
               Inl e \<Rightarrow> (Inl e, spark)
             | Inr changed \<Rightarrow>
                 (case schema_of spark tname of
                    Inl e \<Rightarrow> (Inl e, spark)
                  | Inr schema \<Rightarrow>
                      (case createDataFrame_raises spark changed schema of
                         Some e \<Rightarrow> (Inl e, spark)
                       | None \<Rightarrow>
                           let columns = map field_name schema;
                               merge_condition = merge_condition_of unique_keys
                           in (case forName_raises spark tname of
                                 Some e \<Rightarrow> (Inl e, spark)
                               | None \<Rightarrow>
                                   let columns_to_update = columns_to_update_of columns unique_keys
                                   in execute_merge spark
                                        \<lparr>target = tname,
                                         source_rows = changed,
                                         source_columns = columns,
                                         condition = merge_condition,
                                         matched_update_set = update_set_of columns_to_update,
                                         not_matched_insert_all = True\<rparr>)))))"

definition save_to_databricks :: "int list \<Rightarrow> string \<Rightarrow> row list \<Rightarrow> spark_session \<Rightarrow> (py_exc + unit) \<times> spark_session" where
  "save_to_databricks changed_rows_id tname row_data spark =
     (case save_try changed_rows_id tname row_data spark of
        (Inl e, spark') \<Rightarrow>
          (Inl (Exception (''Failed to save data to Databricks table '' @ [CHR 0x27] @ tname
                           @ [CHR 0x27] @ '': '' @ str_exc e)), spark')
      | (Inr u, spark') \<Rightarrow> (Inr (), spark'))"

text \<open>
  The loop of \<^verbatim>\<open>save_data\<close> that converts the field \<^verbatim>\<open>DateDATE\<close>. It assigns into
  the row dictionaries, so the function returns the rows as the loop leaves them together
  with the exception that ended it, if any. A \<^verbatim>\<open>ValueError\<close> of the conversion is
  raised again with a prefixed message; any other exception passes through.
\<close>

fun convert_dates :: "row list \<Rightarrow> py_exc option \<times> row list" where
  "convert_dates [] = (None, [])"
| "convert_dates (row # rest) =
     (if dict_contains ''DateDATE'' row then
        (case strptime_date (dict_get row ''DateDATE'') of
           Inl (ValueError m) \<Rightarrow>
             (Some (ValueError (''Error converting DateDATE to date: '' @ m)), row # rest)
         | Inl e \<Rightarrow> (Some e, row # rest)
         | Inr date_obj \<Rightarrow>
             (case convert_dates rest of
                (r, rest') \<Rightarrow> (r, AList.update ''DateDATE'' date_obj row # rest')))
      else (case convert_dates rest of (r, rest') \<Rightarrow> (r, row # rest')))"

text \<open>
  \<^verbatim>\<open>save_data\<close> returns its status message; the model also returns the list
  \<^verbatim>\<open>row_data\<close> as the call leaves it and the session.
\<close>

definition save_data :: "int \<Rightarrow> int list \<Rightarrow> string \<Rightarrow> row list \<Rightarrow> spark_session \<Rightarrow> string \<times> row list \<times> spark_session" where
  "save_data n_clicks changed_rows_id tname row_data spark =
     (if n_clicks > 0 then
        (case convert_dates row_data of
           (Some e, rows') \<Rightarrow> (''Error with saving data: '' @ str_exc e, rows', spark)
         | (None, rows') \<Rightarrow>
             (case save_to_databricks changed_rows_id tname rows' spark of
                (Inl e, spark') \<Rightarrow> (''Error with saving data: '' @ str_exc e, rows', spark')
              | (Inr u, spark') \<Rightarrow> (''Data was successfully saved!'', rows', spark')))
      else (''No Changes to be saved.'', row_data, spark))"

section \<open>Column definitions: \<^verbatim>\<open>get_column_types\<close> and \<^verbatim>\<open>generate_column_defs\<close>\<close>

definition type_mapping :: "(string \<times> string) list" where
  "type_mapping =
     [(''IntegerType'', ''numericColumn''),
      (''LongType'', ''numericColumn''),
      (''FloatType'', ''numericColumn''),
      (''DoubleType'', ''numericColumn''),
      (''DecimalType'', ''numericColumn''),
      (''StringType'', ''textColumn''),
      (''BooleanType'', ''booleanColumn''),
      (''DateType'', ''dateColumn''),
      (''TimestampType'', ''dateColumn'')]"

record column_type =
  column :: string
  ag_type :: string

definition get_column_types :: "struct_field list \<Rightarrow> column_type list" where
  "get_column_types tbl_schema =
     map (\<lambda>f. \<lparr>column = field_name f,
               ag_type = (case map_of type_mapping (dataType f) of
                            None \<Rightarrow> ''textColumn'' | Some t \<Rightarrow> t)\<rparr>) tbl_schema"

record column_def =
  headerName :: string
  field :: string
  editable :: bool
  col_type :: string
  col_filter :: bool
  cellStyle :: "(string \<times> string) list"

text \<open>
  The key list holds the strings of the metadata column \<^verbatim>\<open>column_name\<close>. The entry
  \<^verbatim>\<open>"editable"\<close> is the expression \<^verbatim>\<open>True not in unique_keys\<close>.
\<close>

definition generate_column_defs :: "spark_session \<Rightarrow> row list \<Rightarrow> struct_field list \<Rightarrow> string \<Rightarrow> py_exc + column_def list" where
  "generate_column_defs spark data tbl_schema tname =
     (let column_types = get_column_types tbl_schema in
      case get_primary_keys spark tname of
        Inl e \<Rightarrow> Inl e
      | Inr unique_keys \<Rightarrow>
          Inr (map (\<lambda>col.
                 \<lparr>headerName = column col,
                  field = column col,
                  editable = (\<not> py_in (PyBool True) (map PyStr unique_keys)),
                  col_type = ag_type col,
                  col_filter = True,
                  cellStyle = (if py_in (PyStr (column col)) (map PyStr unique_keys)
                               then [(''backgroundColor'', ''rgba(241, 137, 0, 0.2)'')]
                               else [])\<rparr>) column_types))"

section \<open>The callbacks on the browser state\<close>

text \<open>
  The component properties the callbacks read and write. A callback receives the
  properties named by its \<^verbatim>\<open>Input\<close> and \<^verbatim>\<open>State\<close> declarations and its return value
  replaces the properties named by its \<^verbatim>\<open>Output\<close> declarations; nothing else changes.
  A callback that raises updates nothing.
\<close>

record dash_state =
  changed_rows_store :: "int list"
  table_name_input :: string
  rowData :: "row list"
  loading_output_2 :: string

definition track_changes_callback :: "row list option \<Rightarrow> dash_state \<Rightarrow> dash_state" where
  "track_changes_callback cellValueChanged st =
     (case track_changes cellValueChanged (Some (changed_rows_store st)) of
        Inl e \<Rightarrow> st
      | Inr ids \<Rightarrow> st\<lparr>changed_rows_store := ids\<rparr>)"

definition save_data_callback :: "int \<Rightarrow> dash_state \<times> spark_session \<Rightarrow> dash_state \<times> spark_session" where
  "save_data_callback n_clicks ss =
     (case save_data n_clicks (changed_rows_store (fst ss)) (table_name_input (fst ss))
             (rowData (fst ss)) (snd ss) of
        (message, rows', spark') \<Rightarrow> ((fst ss)\<lparr>loading_output_2 := message\<rparr>, spark'))"

section \<open>A sample session\<close>

text \<open>
  The table \<^verbatim>\<open>cat.ns.t1\<close> with columns \<^verbatim>\<open>id\<close> and \<^verbatim>\<open>name\<close>, declared in the
  metadata table with the key column \<^verbatim>\<open>id\<close>, on a backend that accepts every call.
\<close>

definition sample_schema :: "struct_field list" where
  "sample_schema =
     [\<lparr>field_name = ''id'', dataType = ''IntegerType''\<rparr>,
      \<lparr>field_name = ''name'', dataType = ''StringType''\<rparr>]"

definition sample_spark :: spark_session where
  "sample_spark =
     \<lparr>key_table = Inr [\<lparr>table_catalog = ''cat'', table_schema = ''ns'',
                        table_name = ''t1'', column_name = ''id''\<rparr>],
      schema_of = (\<lambda>t. if t = ''cat.ns.t1'' then Inr sample_schema
                        else Inl (BackendError ''TABLE_OR_VIEW_NOT_FOUND'')),
      createDataFrame_raises = (\<lambda>rows schema. None),
      forName_raises = (\<lambda>t. None),
      execute_raises = (\<lambda>req. None),
      merge_calls = []\<rparr>"

text \<open>The same backend with an empty metadata table.\<close>

definition keyless_spark :: spark_session where
  "keyless_spark = sample_spark\<lparr>key_table := Inr []\<rparr>"

definition sample_grid :: "row list" where
  "sample_grid =
     [[(''id'', PyInt 1), (''name'', PyStr ''a'')],
      [(''id'', PyInt 2), (''name'', PyStr ''bb'')]]"


section \<open>Well-formed date strings, in the words of the specification\<close>



section \<open>Helper lemmas\<close>


lemma map_exc_Inl: "map_exc f xs = Inl e \<Longrightarrow> \<exists>x\<in>set xs. f x = Inl e"
  by (induction xs) (auto split: sum.splits)

lemma map_exc_fails: "x \<in> set xs \<Longrightarrow> f x = Inl e \<Longrightarrow> \<exists>e'. map_exc f xs = Inl e'"
  by (induction xs) (auto split: sum.splits)

lemma py_index_out_of_range:
  "int (length xs) \<le> i \<or> i < - int (length xs) \<Longrightarrow>
   py_index xs i = Inl (IndexError ''list index out of range'')"
  by (auto simp: py_index_def Let_def)

lemma py_index_Inl: "py_index xs i = Inl e \<Longrightarrow> e = IndexError ''list index out of range''"
  by (auto simp: py_index_def Let_def split: if_splits)

lemma project_out_of_range:
  assumes "i \<in> set ids" and "int (length rows) \<le> i \<or> i < - int (length rows)"
  shows "map_exc (py_index rows) ids = Inl (IndexError ''list index out of range'')"
proof -
  have "py_index rows i = Inl (IndexError ''list index out of range'')"
    using assms(2) by (rule py_index_out_of_range)
  with assms(1) have "\<exists>e'. map_exc (py_index rows) ids = Inl e'"
    by (rule map_exc_fails [where f = "py_index rows"])
  then obtain e where e: "map_exc (py_index rows) ids = Inl e" by blast
  from map_exc_Inl [OF e] obtain x where "py_index rows x = Inl e" by blast
  then have "e = IndexError ''list index out of range''" by (rule py_index_Inl)
  with e show ?thesis by simp
qed








lemma length_py_split: "length (py_split c s) = Suc (count_list s c)"
  by (induction s) auto

section \<open>Key resolution\<close>

text \<open>
  C7. A table identifier that does not split at its dots into exactly three parts makes
  \<^verbatim>\<open>get_primary_keys\<close> raise a \<^verbatim>\<open>ValueError\<close> (the unpacking of the split fails);
  no key list is returned, whatever the metadata table holds.
\<close>

theorem get_primary_keys_malformed_identifier:
  assumes "length (py_split (CHR ''.'') tname) \<noteq> 3"
  shows "(\<exists>m. get_primary_keys spark tname = Inl (ValueError m)) \<and>
         (\<forall>ks. get_primary_keys spark tname \<noteq> Inr ks)"
  using assms by (simp add: get_primary_keys_def)

theorem get_primary_keys_malformed_identifier_witness:
  "length (py_split (CHR ''.'') ''cat.ns'') \<noteq> 3 \<and>
   get_primary_keys sample_spark ''cat.ns'' =
     Inl (ValueError ''not enough values to unpack (expected 3, got 2)'')"
proof -
  have h: "length (py_split (CHR ''.'') ''cat.ns'') \<noteq> 3" by simp
  show ?thesis
    using h get_primary_keys_malformed_identifier [OF h, of sample_spark]
    by (simp add: get_primary_keys_def unpack3_message_def)
qed

section \<open>Saving\<close>

lemma sample_keys: "get_primary_keys sample_spark ''cat.ns.t1'' = Inr [''id'']"
  by (simp add: get_primary_keys_def sample_spark_def)

lemma keyless_keys: "get_primary_keys keyless_spark ''cat.ns.t1'' = Inr []"
  by (simp add: get_primary_keys_def keyless_spark_def sample_spark_def)

text \<open>
  C4. When key resolution returns the empty list, \<^verbatim>\<open>save_to_databricks\<close> raises the
  exception that wraps the no-primary-key message and leaves the session as it was: no
  merge is executed. A save triggered through \<^verbatim>\<open>save_data\<close> then returns an error
  status, again without any merge.
\<close>

theorem save_without_primary_key:
  assumes "get_primary_keys spark tname = Inr []"
  shows "save_to_databricks ids tname rows spark =
           (Inl (Exception (''Failed to save data to Databricks table '' @ [CHR 0x27] @ tname
                            @ [CHR 0x27] @ '': '' @ no_primary_key_message tname)), spark) \<and>
         (0 < n \<longrightarrow>
            (\<exists>msg. fst (save_data n ids tname rows spark) = ''Error with saving data: '' @ msg) \<and>
            snd (snd (save_data n ids tname rows spark)) = spark \<and>
            merge_calls (snd (snd (save_data n ids tname rows spark))) = merge_calls spark)"
proof -
  have t: "\<And>rs. save_try ids tname rs spark =
             (Inl (ValueError (no_primary_key_message tname)), spark)"
    using assms by (simp add: save_try_def)
  have s: "\<And>rs. save_to_databricks ids tname rs spark =
           (Inl (Exception (''Failed to save data to Databricks table '' @ [CHR 0x27] @ tname
                            @ [CHR 0x27] @ '': '' @ no_primary_key_message tname)), spark)"
    by (simp add: save_to_databricks_def t)
  show ?thesis
    by (auto simp: s save_data_def split: prod.splits option.splits)
qed

theorem save_without_primary_key_witness:
  "get_primary_keys keyless_spark ''cat.ns.t1'' = Inr [] \<and> (0::int) < 1 \<and>
   snd (snd (save_data 1 [1] ''cat.ns.t1'' sample_grid keyless_spark)) = keyless_spark \<and>
   fst (save_to_databricks [1] ''cat.ns.t1'' sample_grid keyless_spark) =
     Inl (Exception (''Failed to save data to Databricks table '' @ [CHR 0x27] @ ''cat.ns.t1''
                     @ [CHR 0x27] @ '': '' @ no_primary_key_message ''cat.ns.t1''))"
  using keyless_keys
    save_without_primary_key [OF keyless_keys, of "[1]" sample_grid 1]
  by simp



lemma sample_spark_fields:
  "schema_of sample_spark ''cat.ns.t1'' = Inr sample_schema"
  "createDataFrame_raises sample_spark rs sch = None"
  "forName_raises sample_spark t = None"
  "execute_raises sample_spark req = None"
  "merge_calls sample_spark = []"
  by (simp_all add: sample_spark_def)

lemma sample_save:
  "ids = [1] \<or> ids = [-1] \<Longrightarrow>
   save_to_databricks ids ''cat.ns.t1'' sample_grid sample_spark =
     (Inr (), sample_spark\<lparr>merge_calls :=
        [\<lparr>target = ''cat.ns.t1'',
          source_rows = [[(''id'', PyInt 2), (''name'', PyStr ''bb'')]],
          source_columns = [''id'', ''name''],
          condition = ''target.id = source.id'',
          matched_update_set = [(''name'', ''source.name'')],
          not_matched_insert_all = True\<rparr>]\<rparr>)"
  by (auto simp: save_to_databricks_def save_try_def sample_keys sample_grid_def py_index_def
      execute_merge_def merge_condition_of_def columns_to_update_of_def update_set_of_def
      sample_spark_fields sample_schema_def)


text \<open>
  C6, as stated, fails: the position \<open>-1\<close> is outside the bounds of a grid of two rows,
  yet the save succeeds and merges the last row of the grid.
\<close>

theorem save_negative_index_counterexample:
  "fst (save_to_databricks [-1] ''cat.ns.t1'' sample_grid sample_spark) = Inr () \<and>
   map source_rows (merge_calls (snd (save_to_databricks [-1] ''cat.ns.t1'' sample_grid sample_spark)))
     = [[[(''id'', PyInt 2), (''name'', PyStr ''bb'')]]]"
  by (simp add: sample_save)

text \<open>
  C6, amended. When key resolution returns a non-empty key list and the changed-index
  list holds a position that is at least the number of rows, or less than minus the
  number of rows, the save raises the exception that wraps \<^verbatim>\<open>list index out of range\<close>
  and executes no merge. A position \<open>j\<close> with \<open>- length rows \<le> j < 0\<close> is not an
  error: it selects the row \<open>length rows + j\<close>, counted from the end.
\<close>

theorem save_index_out_of_range:
  assumes "get_primary_keys spark tname = Inr unique_keys" and "unique_keys \<noteq> []"
    and "i \<in> set ids" and "int (length rows) \<le> i \<or> i < - int (length rows)"
  shows "save_to_databricks ids tname rows spark =
           (Inl (Exception (''Failed to save data to Databricks table '' @ [CHR 0x27] @ tname
                            @ [CHR 0x27] @ '': list index out of range'')), spark) \<and>
         (\<forall>j. - int (length rows) \<le> j \<and> j < 0 \<longrightarrow>
               py_index rows j = Inr (rows ! nat (int (length rows) + j))) \<and>
         (\<forall>j. 0 \<le> j \<and> j < int (length rows) \<longrightarrow> py_index rows j = Inr (rows ! nat j))"
proof -
  have "map_exc (py_index rows) ids = Inl (IndexError ''list index out of range'')"
    using assms(3,4) by (rule project_out_of_range)
  then have "save_try ids tname rows spark =
               (Inl (IndexError ''list index out of range''), spark)"
    using assms(1,2) by (simp add: save_try_def)
  then have "save_to_databricks ids tname rows spark =
           (Inl (Exception (''Failed to save data to Databricks table '' @ [CHR 0x27] @ tname
                            @ [CHR 0x27] @ '': list index out of range'')), spark)"
    by (simp add: save_to_databricks_def)
  moreover have "\<forall>j. - int (length rows) \<le> j \<and> j < 0 \<longrightarrow>
               py_index rows j = Inr (rows ! nat (int (length rows) + j))"
    by (auto simp: py_index_def Let_def add.commute)
  moreover have "\<forall>j. 0 \<le> j \<and> j < int (length rows) \<longrightarrow> py_index rows j = Inr (rows ! nat j)"
    by (auto simp: py_index_def Let_def)
  ultimately show ?thesis by blast
qed

theorem save_index_out_of_range_witness:
  "get_primary_keys sample_spark ''cat.ns.t1'' = Inr [''id''] \<and> [''id''] \<noteq> ([] :: string list) \<and>
   (2::int) \<in> set [0, 2] \<and> int (length sample_grid) \<le> 2 \<and>
   save_to_databricks [0, 2] ''cat.ns.t1'' sample_grid sample_spark =
     (Inl (Exception (''Failed to save data to Databricks table '' @ [CHR 0x27] @ ''cat.ns.t1''
                      @ [CHR 0x27] @ '': list index out of range'')), sample_spark) \<and>
   py_index sample_grid (-2) = Inr (sample_grid ! 0)"
proof -
  have k: "[''id''] \<noteq> ([] :: string list)" by simp
  have m: "(2::int) \<in> set [0, 2]" by simp
  have r: "int (length sample_grid) \<le> 2 \<or> 2 < - int (length sample_grid)"
    by (simp add: sample_grid_def)
  have l: "int (length sample_grid) = 2" by (simp add: sample_grid_def)
  show ?thesis
    using sample_keys k m l save_index_out_of_range [OF sample_keys k m r]
    by simp
qed

section \<open>Change tracking\<close>




section \<open>Date conversion of the grid\<close>

lemma strptime_str_error: "strptime_str s = Inl e \<Longrightarrow> \<exists>m. e = ValueError m"
  by (auto simp: strptime_str_def Let_def split: option.splits prod.splits if_splits)

lemma strptime_date_error:
  "strptime_date v = Inl e \<Longrightarrow> (\<exists>m. e = ValueError m) \<or> (\<exists>m. e = TypeError m)"
  by (cases v) (auto simp: strptime_date_def dest: strptime_str_error)







lemma convert_dates_error:
  "fst (convert_dates rows) = Some e \<Longrightarrow>
   (\<exists>m. e = ValueError (''Error converting DateDATE to date: '' @ m)) \<or> (\<exists>m. e = TypeError m)"
proof (induction rows)
  case Nil
  then show ?case by simp
next
  case (Cons row rest)
  then show ?case
    by (auto split: sum.splits py_exc.splits prod.splits if_splits dest!: strptime_date_error)
qed














section \<open>Column definitions\<close>

lemma True_not_in_strings: "\<not> py_in (PyBool True) (map PyStr ks)"
  by (induction ks) (simp_all add: py_in_def)

lemma py_in_strings: "py_in (PyStr c) (map PyStr ks) \<longleftrightarrow> c \<in> set ks"
  by (induction ks) (auto simp: py_in_def)

lemma generate_column_defs_all_editable:
  "generate_column_defs spark data tbl_schema tname = Inr defs \<Longrightarrow> d \<in> set defs \<Longrightarrow> editable d"
  by (auto simp: generate_column_defs_def Let_def True_not_in_strings split: sum.splits)

lemma generate_column_defs_style:
  "generate_column_defs spark data tbl_schema tname = Inr defs \<Longrightarrow>
   get_primary_keys spark tname = Inr ks \<Longrightarrow> d \<in> set defs \<Longrightarrow>
   cellStyle d \<noteq> [] \<longleftrightarrow> field d \<in> set ks"
  by (auto simp: generate_column_defs_def Let_def py_in_strings split: if_splits)

text \<open>
  C5 does not hold of the code. For the table \<^verbatim>\<open>cat.ns.t1\<close> with key column
  \<^verbatim>\<open>id\<close>, the definition built for \<^verbatim>\<open>id\<close> carries the distinguishing cell style
  but is editable: \<^verbatim>\<open>True not in unique_keys\<close> asks whether the value \<^verbatim>\<open>True\<close> is a
  key, which it never is, where the cell style next to it tests the column name.
\<close>

theorem generate_column_defs_key_column_editable:
  "generate_column_defs sample_spark sample_grid sample_schema ''cat.ns.t1'' =
     Inr [\<lparr>headerName = ''id'', field = ''id'', editable = True,
           col_type = ''numericColumn'', col_filter = True,
           cellStyle = [(''backgroundColor'', ''rgba(241, 137, 0, 0.2)'')]\<rparr>,
          \<lparr>headerName = ''name'', field = ''name'', editable = True,
           col_type = ''textColumn'', col_filter = True, cellStyle = []\<rparr>]"
  by (simp add: generate_column_defs_def sample_keys get_column_types_def sample_schema_def
      type_mapping_def py_in_def)

section \<open>The changed-row store across saves\<close>

lemma get_primary_keys_merge_calls:
  "get_primary_keys (spark\<lparr>merge_calls := c\<rparr>) tname = get_primary_keys spark tname"
  by (simp add: get_primary_keys_def Let_def)

text \<open>
  A save reads the session only through the backend's answers: with another list of
  earlier merges it returns the same result and executes the same merges.
\<close>

lemma save_try_frame:
  "save_try ids tname rows (spark\<lparr>merge_calls := c\<rparr>) =
     (fst (save_try ids tname rows spark),
      spark\<lparr>merge_calls :=
        c @ drop (length (merge_calls spark)) (merge_calls (snd (save_try ids tname rows spark)))\<rparr>)"
  by (simp add: save_try_def execute_merge_def Let_def get_primary_keys_merge_calls
      split: sum.splits option.splits)

lemma save_to_databricks_frame:
  "save_to_databricks ids tname rows (spark\<lparr>merge_calls := c\<rparr>) =
     (fst (save_to_databricks ids tname rows spark),
      spark\<lparr>merge_calls :=
        c @ drop (length (merge_calls spark))
              (merge_calls (snd (save_to_databricks ids tname rows spark)))\<rparr>)"
  unfolding save_to_databricks_def
  by (subst save_try_frame) (auto split: prod.splits sum.splits)

lemma save_data_frame:
  "save_data n ids tname rows (spark\<lparr>merge_calls := c\<rparr>) =
     (fst (save_data n ids tname rows spark),
      fst (snd (save_data n ids tname rows spark)),
      spark\<lparr>merge_calls :=
        c @ drop (length (merge_calls spark))
              (merge_calls (snd (snd (save_data n ids tname rows spark))))\<rparr>)"
  unfolding save_data_def
  by (subst save_to_databricks_frame) (auto split: prod.splits sum.splits option.splits)

lemma save_data_session:
  "snd (snd (save_data n ids tname rows spark)) =
     spark\<lparr>merge_calls := merge_calls spark @
        drop (length (merge_calls spark))
          (merge_calls (snd (snd (save_data n ids tname rows spark))))\<rparr>"
proof -
  have e: "spark\<lparr>merge_calls := merge_calls spark\<rparr> = spark" by simp
  have "snd (snd (save_data n ids tname rows (spark\<lparr>merge_calls := merge_calls spark\<rparr>))) =
     spark\<lparr>merge_calls := merge_calls spark @
        drop (length (merge_calls spark))
          (merge_calls (snd (snd (save_data n ids tname rows spark))))\<rparr>"
    by (subst save_data_frame) simp
  then show ?thesis by (simp only: e)
qed

lemma save_data_callback_browser:
  "fst (save_data_callback n (st, spark)) =
     st\<lparr>loading_output_2 := fst (save_data n (changed_rows_store st) (table_name_input st)
                                   (rowData st) spark)\<rparr>"
  by (simp add: save_data_callback_def split: prod.splits)

lemma save_data_callback_session:
  "snd (save_data_callback n (st, spark)) =
     snd (snd (save_data n (changed_rows_store st) (table_name_input st) (rowData st) spark))"
  by (simp add: save_data_callback_def split: prod.splits)

lemma save_data_callback_iterated:
  "changed_rows_store (fst ((save_data_callback n ^^ k) (st, spark))) = changed_rows_store st \<and>
   table_name_input (fst ((save_data_callback n ^^ k) (st, spark))) = table_name_input st \<and>
   rowData (fst ((save_data_callback n ^^ k) (st, spark))) = rowData st"
proof (induction k)
  case 0
  then show ?case by simp
next
  case (Suc k)
  obtain st' spark' where s: "(save_data_callback n ^^ k) (st, spark) = (st', spark')"
    by (cases "(save_data_callback n ^^ k) (st, spark)")
  with Suc show ?case by (simp add: save_data_callback_browser)
qed

text \<open>
  C9. The save callback writes only its status output: the changed-row store, the
  table name and the grid rows of the browser state are the same after a save as before,
  whether the save succeeded or failed, and after any number of saves. A second save
  therefore executes the same merges as the first once more.
\<close>

theorem save_keeps_changed_rows:
  "changed_rows_store (fst (save_data_callback n (st, spark))) = changed_rows_store st \<and>
   table_name_input (fst (save_data_callback n (st, spark))) = table_name_input st \<and>
   rowData (fst (save_data_callback n (st, spark))) = rowData st \<and>
   (\<forall>k. changed_rows_store (fst ((save_data_callback n ^^ k) (st, spark))) = changed_rows_store st) \<and>
   (\<exists>reqs. merge_calls (snd (save_data_callback n (st, spark))) = merge_calls spark @ reqs \<and>
           merge_calls (snd (save_data_callback n (save_data_callback n (st, spark)))) =
             merge_calls spark @ reqs @ reqs)"
proof -
  let ?save = "\<lambda>sp. save_data n (changed_rows_store st) (table_name_input st) (rowData st) sp"
  let ?reqs = "drop (length (merge_calls spark)) (merge_calls (snd (snd (?save spark))))"
  let ?c = "merge_calls spark @ ?reqs"
  have once: "snd (save_data_callback n (st, spark)) = spark\<lparr>merge_calls := ?c\<rparr>"
    unfolding save_data_callback_session by (rule save_data_session)
  have first: "save_data_callback n (st, spark) =
      (st\<lparr>loading_output_2 := fst (?save spark)\<rparr>, spark\<lparr>merge_calls := ?c\<rparr>)"
    using once save_data_callback_browser [of n st spark]
    by (simp add: prod_eq_iff)
  have twice: "merge_calls (snd (save_data_callback n (save_data_callback n (st, spark)))) =
                 ?c @ ?reqs"
    unfolding first save_data_callback_session
    by (simp add: save_data_frame)
  have "merge_calls (snd (save_data_callback n (st, spark))) = merge_calls spark @ ?reqs \<and>
        merge_calls (snd (save_data_callback n (save_data_callback n (st, spark)))) =
          merge_calls spark @ ?reqs @ ?reqs"
    using once twice by simp
  then have resend: "\<exists>reqs. merge_calls (snd (save_data_callback n (st, spark))) = merge_calls spark @ reqs \<and>
           merge_calls (snd (save_data_callback n (save_data_callback n (st, spark)))) =
             merge_calls spark @ reqs @ reqs"
    by blast
  have single: "changed_rows_store (fst (save_data_callback n (st, spark))) = changed_rows_store st \<and>
   table_name_input (fst (save_data_callback n (st, spark))) = table_name_input st \<and>
   rowData (fst (save_data_callback n (st, spark))) = rowData st"
    by (simp add: save_data_callback_browser)
  from single resend save_data_callback_iterated show ?thesis by blast
qed

section \<open>Date parsing\<close>






























end
